theory Spec2Isabelle
  imports Main "HOL-Library.Word"
begin

unbundle bit_operations_syntax

section \<open>The kernel interface used by the module\<close>

text \<open>
  The module \<^verbatim>\<open>snd-xonar-ae.c\<close> is sequential C over three kernel services:
  the enumeration of the attached USB devices, \<^verbatim>\<open>kmalloc\<close> and
  \<^verbatim>\<open>usb_control_msg\<close>. Their outcomes are not decided by the module, so the
  model takes them from an environment: a record of functions over a state of the outside
  world \<open>'w\<close> (the USB core, the allocator, the device). Every theorem below holds for
  every such environment unless it names one.

  C \<^verbatim>\<open>int\<close> values (return codes, \<^verbatim>\<open>current_output\<close>) are modelled as
  \<open>int\<close>: the module only compares and copies them, it does no arithmetic on them.
  Bytes and the 16-bit fields of a control request are words.
\<close>

type_synonym u8 = "8 word"
type_synonym u16 = "16 word"

text \<open>\<^verbatim>\<open>struct usb_device\<close>: the two descriptor fields the module reads, and the
  device number that tells two devices apart.\<close>

record usb_device =
  devnum :: nat
  idVendor :: u16
  idProduct :: u16

text \<open>The pipe built by \<^verbatim>\<open>usb_sndctrlpipe(udev, ep)\<close> (host to device) or
  \<^verbatim>\<open>usb_rcvctrlpipe(udev, ep)\<close> (device to host).\<close>

datatype pipe = SndCtrlPipe nat | RcvCtrlPipe nat

text \<open>The arguments of one call of \<^verbatim>\<open>usb_control_msg(dev, pipe, request,
  requesttype, value, index, data, size, timeout)\<close>; \<open>msg_data\<close> is the content of the
  buffer when the call is made.\<close>

record control_msg =
  msg_dev :: usb_device
  msg_pipe :: pipe
  msg_request :: u8
  msg_requesttype :: u8
  msg_value :: u16
  msg_index :: u16
  msg_data :: "u8 list"
  msg_size :: nat
  msg_timeout :: int

text \<open>
  The environment. \<open>env_devices\<close> lists the attached devices in the order
  \<^verbatim>\<open>usb_for_each_dev\<close> visits them. \<open>env_kmalloc n\<close> answers \<open>None\<close> for a
  failed allocation (NULL) and otherwise the uninitialised content of the block, byte by
  offset. \<open>env_control_msg\<close> answers the return value of the transfer (negative errno or
  a byte count) and, for a device-to-host transfer, the bytes the device delivered.
\<close>

record 'w kernel =
  env_devices :: "'w \<Rightarrow> usb_device list"
  env_kmalloc :: "nat \<Rightarrow> 'w \<Rightarrow> (nat \<Rightarrow> u8) option \<times> 'w"
  env_control_msg :: "control_msg \<Rightarrow> 'w \<Rightarrow> (int \<times> u8 list) \<times> 'w"

text \<open>
  The state the module runs in: its two globals \<^verbatim>\<open>xonar_udev\<close> (\<open>None\<close> is the
  NULL pointer) and \<^verbatim>\<open>current_output\<close>, the outside world, the control transfers
  issued so far (oldest first) and the kernel log written by \<^verbatim>\<open>pr_info\<close> and
  \<^verbatim>\<open>pr_err\<close>. The mutex \<^verbatim>\<open>xonar_mutex\<close> has no effect on a single
  sequential caller and is not part of the state; neither is the reference count moved by
  \<^verbatim>\<open>usb_get_dev\<close> and \<^verbatim>\<open>usb_put_dev\<close>.
\<close>

record 'w state =
  xonar_udev :: "usb_device option"
  current_output :: int
  world :: 'w
  issued :: "control_msg list"
  klog :: "string list"

definition ENOMEM :: int where "ENOMEM = 12"
definition ENODEV :: int where "ENODEV = 19"
definition EINVAL :: int where "EINVAL = 22"

definition USB_DIR_OUT :: u8 where "USB_DIR_OUT = 0"
definition USB_DIR_IN :: u8 where "USB_DIR_IN = 0x80"
definition USB_TYPE_CLASS :: u8 where "USB_TYPE_CLASS = push_bit 5 0x01"
definition USB_RECIP_INTERFACE :: u8 where "USB_RECIP_INTERFACE = 0x01"

definition kmalloc :: "'w kernel \<Rightarrow> nat \<Rightarrow> 'w state \<Rightarrow> u8 list option \<times> 'w state" where
  "kmalloc k n s =
     (case env_kmalloc k n (world s) of
        (None, w) \<Rightarrow> (None, s\<lparr>world := w\<rparr>)
      | (Some g, w) \<Rightarrow> (Some (map g [0..<n]), s\<lparr>world := w\<rparr>))"

text \<open>One control transfer: it is recorded in \<open>issued\<close>; a device-to-host transfer
  overwrites the front of the buffer with the bytes delivered (at most \<open>size\<close> of them),
  a host-to-device transfer leaves the buffer as it is.\<close>

definition usb_control_msg ::
  "'w kernel \<Rightarrow> control_msg \<Rightarrow> 'w state \<Rightarrow> (int \<times> u8 list) \<times> 'w state" where
  "usb_control_msg k m s =
     (case env_control_msg k m (world s) of
        ((ret, rx), w) \<Rightarrow>
          ((ret,
            (case msg_pipe m of
               SndCtrlPipe ep \<Rightarrow> msg_data m
             | RcvCtrlPipe ep \<Rightarrow>
                 (let got = take (msg_size m) rx
                  in got @ drop (length got) (msg_data m)))),
           s\<lparr>world := w, issued := issued s @ [m]\<rparr>))"

definition printk :: "string \<Rightarrow> 'w state \<Rightarrow> 'w state" where
  "printk line s = s\<lparr>klog := klog s @ [line]\<rparr>"

text \<open>\<^verbatim>\<open>sprintf(buf, text)\<close> with a format that has no conversion: the number of
  characters written, and the text left in the buffer.\<close>

definition sprintf :: "string \<Rightarrow> int \<times> string" where
  "sprintf fmt = (int (length fmt), fmt)"

subsection \<open>\<^verbatim>\<open>sysfs_streq\<close>\<close>

text \<open>
  The kernel's string comparison for sysfs input (\<^verbatim>\<open>lib/string_helpers.c\<close>):
  \<^verbatim>\<open>
  while (*s1 && *s1 == *s2) { s1++; s2++; }
  if (*s1 == *s2) return true;
  if (!*s1 && *s2 == '\n' && !s2[1]) return true;
  if (*s1 == '\n' && !s1[1] && !*s2) return true;
  return false;
  \<close>
  A \<^verbatim>\<open>const char *\<close> is the list of bytes from the pointer on; the string ends
  at the first NUL, or at the end of the list, where the terminating NUL stands.
\<close>

definition deref :: "string \<Rightarrow> char" where
  "deref s = (case s of [] \<Rightarrow> CHR 0x00 | c # cs \<Rightarrow> c)"

fun streq_scan :: "string \<Rightarrow> string \<Rightarrow> string \<times> string" where
  "streq_scan (a # s1) (b # s2) =
     (if a \<noteq> CHR 0x00 \<and> a = b then streq_scan s1 s2 else (a # s1, b # s2))"
| "streq_scan [] s2 = ([], s2)"
| "streq_scan (a # s1) [] = (a # s1, [])"

definition sysfs_streq :: "string \<Rightarrow> string \<Rightarrow> bool" where
  "sysfs_streq s1 s2 =
     (case streq_scan s1 s2 of
        (p1, p2) \<Rightarrow>
          if deref p1 = deref p2 then True
          else if deref p1 = CHR 0x00 \<and> deref p2 = CHR 0x0A \<and> deref (tl p2) = CHR 0x00 then True
          else if deref p1 = CHR 0x0A \<and> deref (tl p1) = CHR 0x00 \<and> deref p2 = CHR 0x00 then True
          else False)"

section \<open>The module\<close>

definition XONAR_VENDOR_ID :: u16 where "XONAR_VENDOR_ID = 0x0B05"
definition XONAR_PRODUCT_ID :: u16 where "XONAR_PRODUCT_ID = 0x180F"
definition UAC2_CS_CUR :: u8 where "UAC2_CS_CUR = 0x01"
definition XONAR_OUTPUT_SEL_CS :: u16 where "XONAR_OUTPUT_SEL_CS = 0x08"
definition XONAR_CONNECTOR_CS :: u16 where "XONAR_CONNECTOR_CS = 0x02"
definition XONAR_OT7_ID :: u16 where "XONAR_OT7_ID = 7"

text \<open>The callback of \<^verbatim>\<open>usb_for_each_dev\<close>: the return value, and the cell
  \<^verbatim>\<open>*found\<close> after the call.\<close>

definition match_xonar :: "usb_device \<Rightarrow> usb_device option \<Rightarrow> int \<times> usb_device option" where
  "match_xonar udev found =
     (if idVendor udev = XONAR_VENDOR_ID \<and> idProduct udev = XONAR_PRODUCT_ID
      then (1, Some udev)
      else (0, found))"

text \<open>\<^verbatim>\<open>usb_for_each_dev(data, fn)\<close> calls \<open>fn\<close> on each device in turn and stops
  at the first call that returns non-zero.\<close>

fun usb_for_each_dev ::
  "usb_device list \<Rightarrow> 'a \<Rightarrow> (usb_device \<Rightarrow> 'a \<Rightarrow> int \<times> 'a) \<Rightarrow> int \<times> 'a" where
  "usb_for_each_dev [] data fn = (0, data)"
| "usb_for_each_dev (d # ds) data fn =
     (case fn d data of
        (r, data') \<Rightarrow> if r \<noteq> 0 then (r, data') else usb_for_each_dev ds data' fn)"

definition find_xonar :: "'w kernel \<Rightarrow> 'w state \<Rightarrow> usb_device option" where
  "find_xonar k s = snd (usb_for_each_dev (env_devices k (world s)) None match_xonar)"

definition xonar_switch :: "'w kernel \<Rightarrow> usb_device \<Rightarrow> int \<Rightarrow> 'w state \<Rightarrow> int \<times> 'w state" where
  "xonar_switch k udev speakers s =
     (case kmalloc k 2 s of
        (None, s1) \<Rightarrow> (- ENOMEM, s1)
      | (Some buf0, s1) \<Rightarrow>
          (let buf1 = buf0[0 := (if speakers \<noteq> 0 then 0x01 else 0x02)];
               buf2 = buf1[1 := 0x03]
           in case usb_control_msg k
                \<lparr>msg_dev = udev, msg_pipe = SndCtrlPipe 0,
                 msg_request = UAC2_CS_CUR,
                 msg_requesttype = USB_TYPE_CLASS OR USB_RECIP_INTERFACE OR USB_DIR_OUT,
                 msg_value = push_bit 8 XONAR_OUTPUT_SEL_CS,
                 msg_index = push_bit 8 XONAR_OT7_ID OR 0,
                 msg_data = buf2, msg_size = 2, msg_timeout = 1000\<rparr> s1 of
                ((ret, buf3), s2) \<Rightarrow> (ret, s2)))"

definition xonar_get_status :: "'w kernel \<Rightarrow> usb_device \<Rightarrow> 'w state \<Rightarrow> int \<times> 'w state" where
  "xonar_get_status k udev s =
     (case kmalloc k 6 s of
        (None, s1) \<Rightarrow> (- ENOMEM, s1)
      | (Some buf0, s1) \<Rightarrow>
          (case usb_control_msg k
                \<lparr>msg_dev = udev, msg_pipe = RcvCtrlPipe 0,
                 msg_request = UAC2_CS_CUR,
                 msg_requesttype = USB_TYPE_CLASS OR USB_RECIP_INTERFACE OR USB_DIR_IN,
                 msg_value = push_bit 8 XONAR_CONNECTOR_CS,
                 msg_index = push_bit 8 XONAR_OT7_ID OR 0,
                 msg_data = buf0, msg_size = 6, msg_timeout = 1000\<rparr> s1 of
             ((ret, buf1), s2) \<Rightarrow>
               if ret < 0 then (ret, s2)
               else ((if buf1 ! 0 = 8 then 1 else 0), s2)))"

definition output_set :: "'w kernel \<Rightarrow> string \<Rightarrow> 'w state \<Rightarrow> int \<times> 'w state" where
  "output_set k val s =
     (case xonar_udev s of
        None \<Rightarrow> (- ENODEV, s)
      | Some udev \<Rightarrow>
          (case (if sysfs_streq val ''speakers'' \<or> sysfs_streq val ''1'' then Some (1::int)
                 else if sysfs_streq val ''headphones'' \<or> sysfs_streq val ''0'' then Some 0
                 else None) of
             None \<Rightarrow> (- EINVAL, s)
           | Some speakers \<Rightarrow>
               (case xonar_switch k udev speakers s of
                  (ret, s1) \<Rightarrow>
                    (let s2 = (if ret \<ge> 0
                               then printk (''xonar-ae: switched to '' @
                                       (if speakers \<noteq> 0 then ''speakers'' else ''headphones'') @
                                       ''\<newline>'')
                                      (s1\<lparr>current_output := speakers\<rparr>)
                               else s1)
                     in ((if ret < 0 then ret else 0), s2)))))"

definition output_get :: "'w kernel \<Rightarrow> 'w state \<Rightarrow> (int \<times> string) \<times> 'w state" where
  "output_get k s =
     (case xonar_udev s of
        None \<Rightarrow> (sprintf ''disconnected\<newline>'', s)
      | Some udev \<Rightarrow>
          (case xonar_get_status k udev s of
             (status, s1) \<Rightarrow>
               (let s2 = (if status \<ge> 0 then s1\<lparr>current_output := status\<rparr> else s1)
                in if current_output s2 = 1 then (sprintf ''speakers\<newline>'', s2)
                   else if current_output s2 = 0 then (sprintf ''headphones\<newline>'', s2)
                   else (sprintf ''unknown\<newline>'', s2))))"

definition output_name :: "int \<Rightarrow> string" where
  "output_name out =
     (if out = 1 then ''speakers'' else if out = 0 then ''headphones'' else ''unknown'')"

definition xonar_ae_init :: "'w kernel \<Rightarrow> 'w state \<Rightarrow> int \<times> 'w state" where
  "xonar_ae_init k s =
     (let s0 = s\<lparr>xonar_udev := find_xonar k s\<rparr>
      in case xonar_udev s0 of
           None \<Rightarrow>
             (- ENODEV, printk ''xonar-ae: ASUS XONAR AE (0B05:180F) not found\<newline>'' s0)
         | Some udev \<Rightarrow>
             (case xonar_get_status k udev s0 of
                (status, s1) \<Rightarrow>
                  (let s2 = s1\<lparr>current_output := (if status \<ge> 0 then status else - 1)\<rparr>
                   in (0, printk (''xonar-ae: loaded (current output: '' @
                                  output_name (current_output s2) @ '')\<newline>'') s2))))"

definition xonar_ae_exit :: "'w state \<Rightarrow> 'w state" where
  "xonar_ae_exit s = printk ''xonar-ae: unloaded\<newline>'' (s\<lparr>xonar_udev := None\<rparr>)"

text \<open>The state when the module's code is first entered: the static initialisers
  \<^verbatim>\<open>xonar_udev = NULL\<close> and \<^verbatim>\<open>current_output = -1\<close>, nothing issued or
  logged yet.\<close>

definition initial_state :: "'w \<Rightarrow> 'w state" where
  "initial_state w =
     \<lparr>xonar_udev = None, current_output = - 1, world = w, issued = [], klog = []\<rparr>"

section \<open>Tokens, call sequences and test doubles\<close>

text \<open>The C string held in a buffer: the bytes before the first NUL.\<close>

definition c_str :: "string \<Rightarrow> string" where
  "c_str s = takeWhile (\<lambda>c. c \<noteq> CHR 0x00) s"

text \<open>The inputs that \<^verbatim>\<open>output_set\<close> takes for speakers and for headphones: the
  four words, each also with the one trailing newline that \<^verbatim>\<open>echo\<close> appends.\<close>

definition speakers_tokens :: "string set" where
  "speakers_tokens = {''speakers'', ''speakers\<newline>'', ''1'', ''1\<newline>''}"

definition headphones_tokens :: "string set" where
  "headphones_tokens = {''headphones'', ''headphones\<newline>'', ''0'', ''0\<newline>''}"

text \<open>Comparison of two strings up to the case of ASCII letters, as the specification
  words the token check; the module itself has no such comparison.\<close>

definition to_lower :: "char \<Rightarrow> char" where
  "to_lower c =
     (let n = (of_char c :: nat) in if 65 \<le> n \<and> n \<le> 90 then char_of (n + 32) else c)"

definition caseless_eq :: "string \<Rightarrow> string \<Rightarrow> bool" where
  "caseless_eq a b = (map to_lower a = map to_lower b)"

text \<open>The entry points of the module as one call each, and a sequence of calls run from
  a state. A write of the parameter is \<open>Call_set\<close>, a read is \<open>Call_get\<close>.\<close>

datatype call = Call_init | Call_exit | Call_set string | Call_get

fun step :: "'w kernel \<Rightarrow> call \<Rightarrow> 'w state \<Rightarrow> 'w state" where
  "step k Call_init s = snd (xonar_ae_init k s)"
| "step k Call_exit s = xonar_ae_exit s"
| "step k (Call_set val) s = snd (output_set k val s)"
| "step k Call_get s = snd (output_get k s)"

fun run :: "'w kernel \<Rightarrow> call list \<Rightarrow> 'w state \<Rightarrow> 'w state" where
  "run k [] s = s"
| "run k (c # cs) s = run k cs (step k c s)"

text \<open>
  Concrete environments for the closed examples. The world of each is one byte.
  \<open>stub_echo\<close> has the card attached behind a root hub, never fails, remembers the
  selector byte of the last write and reports 8 channels after a speakers write and 2
  otherwise. \<open>stub_timeout\<close> has the card attached and fails every transfer with
  \<^verbatim>\<open>-ETIMEDOUT\<close> (-110). \<open>stub_absent\<close> has only the root hub attached.
\<close>

definition xonar_dev :: usb_device where
  "xonar_dev = \<lparr>devnum = 3, idVendor = 0x0B05, idProduct = 0x180F\<rparr>"

definition hub_dev :: usb_device where
  "hub_dev = \<lparr>devnum = 1, idVendor = 0x1D6B, idProduct = 0x0002\<rparr>"

definition stub_echo :: "u8 kernel" where
  "stub_echo =
     \<lparr>env_devices = (\<lambda>w. [hub_dev, xonar_dev]),
      env_kmalloc = (\<lambda>n w. (Some (\<lambda>i. 0), w)),
      env_control_msg = (\<lambda>m w.
        case msg_pipe m of
          SndCtrlPipe ep \<Rightarrow>
            ((int (msg_size m), []), (case msg_data m of [] \<Rightarrow> w | b # bs \<Rightarrow> b))
        | RcvCtrlPipe ep \<Rightarrow> ((6, [if w = 1 then 8 else 2, 0, 0, 0, 0, 0]), w))\<rparr>"

definition stub_timeout :: "u8 kernel" where
  "stub_timeout =
     \<lparr>env_devices = (\<lambda>w. [hub_dev, xonar_dev]),
      env_kmalloc = (\<lambda>n w. (Some (\<lambda>i. 0), w)),
      env_control_msg = (\<lambda>m w. ((- 110, []), w))\<rparr>"

definition stub_absent :: "u8 kernel" where
  "stub_absent =
     \<lparr>env_devices = (\<lambda>w. [hub_dev]),
      env_kmalloc = (\<lambda>n w. (Some (\<lambda>i. 0), w)),
      env_control_msg = (\<lambda>m w. ((- 19, []), w))\<rparr>"

text \<open>A state with the device handle \<open>d\<close> held and the cache at \<open>out\<close>.\<close>

definition attached :: "usb_device \<Rightarrow> int \<Rightarrow> u8 state" where
  "attached d out =
     \<lparr>xonar_udev = Some d, current_output = out, world = 0, issued = [], klog = []\<rparr>"

section \<open>Auxiliary facts\<close>

lemmas usb_consts = UAC2_CS_CUR_def USB_TYPE_CLASS_def USB_RECIP_INTERFACE_def USB_DIR_OUT_def
  USB_DIR_IN_def XONAR_OUTPUT_SEL_CS_def XONAR_CONNECTOR_CS_def XONAR_OT7_ID_def

subsection \<open>What \<^verbatim>\<open>sysfs_streq\<close> accepts\<close>

lemma c_str_simps [simp]:
  "c_str [] = []"
  "c_str (a # s) = (if a = CHR 0x00 then [] else a # c_str s)"
  by (simp_all add: c_str_def)

lemma deref_simps [simp]: "deref [] = CHR 0x00" "deref (c # cs) = c"
  by (simp_all add: deref_def)

lemma c_str_Nil_iff: "c_str s = [] \<longleftrightarrow> deref s = CHR 0x00"
  by (cases s) auto

text \<open>Two C strings pass \<^verbatim>\<open>sysfs_streq\<close> exactly when they are equal or one is
  the other followed by a single newline.\<close>

lemma sysfs_streq_c_str:
  "sysfs_streq s1 s2 \<longleftrightarrow>
     c_str s1 = c_str s2 \<or> c_str s2 = c_str s1 @ ''\<newline>'' \<or> c_str s1 = c_str s2 @ ''\<newline>''"
proof (induction s1 s2 rule: streq_scan.induct)
  case (1 a s1 b s2)
  show ?case
  proof (cases "a \<noteq> CHR 0x00 \<and> a = b")
    case True
    with 1 show ?thesis by (simp add: sysfs_streq_def)
  next
    case False
    then show ?thesis
      by (cases s1; cases s2) (auto simp: sysfs_streq_def c_str_Nil_iff)
  qed
next
  case (2 s2)
  then show ?case by (cases s2) (auto simp: sysfs_streq_def c_str_Nil_iff)
next
  case (3 a s1)
  then show ?case by (cases s1) (auto simp: sysfs_streq_def c_str_Nil_iff)
qed

lemma speakers_token_iff:
  "sysfs_streq t ''speakers'' \<or> sysfs_streq t ''1'' \<longleftrightarrow> c_str t \<in> speakers_tokens"
  by (auto simp: sysfs_streq_c_str speakers_tokens_def)

lemma headphones_token_iff:
  "sysfs_streq t ''headphones'' \<or> sysfs_streq t ''0'' \<longleftrightarrow> c_str t \<in> headphones_tokens"
  by (auto simp: sysfs_streq_c_str headphones_tokens_def)

lemma tokens_disjoint: "x \<in> speakers_tokens \<Longrightarrow> x \<notin> headphones_tokens"
  by (auto simp: speakers_tokens_def headphones_tokens_def)

lemma caseless_SPEAKERS: "caseless_eq ''SPEAKERS'' ''speakers''"
  by code_simp

lemma not_streq_SPEAKERS:
  "\<not> sysfs_streq ''SPEAKERS'' ''speakers''" "\<not> sysfs_streq ''SPEAKERS'' ''1''"
  "\<not> sysfs_streq ''SPEAKERS'' ''headphones''" "\<not> sysfs_streq ''SPEAKERS'' ''0''"
  by (simp_all add: sysfs_streq_def)

subsection \<open>What the two transfers leave alone\<close>

lemma kmalloc_frame:
  "kmalloc k n s = (r, s') \<Longrightarrow>
     xonar_udev s' = xonar_udev s \<and> current_output s' = current_output s \<and>
     issued s' = issued s \<and> klog s' = klog s"
  by (auto simp: kmalloc_def split: prod.splits option.splits)

lemma usb_control_msg_frame:
  "usb_control_msg k m s = (r, s') \<Longrightarrow>
     xonar_udev s' = xonar_udev s \<and> current_output s' = current_output s \<and>
     issued s' = issued s @ [m] \<and> klog s' = klog s"
  by (auto simp: usb_control_msg_def split: prod.splits)

lemma xonar_switch_frame:
  "xonar_switch k d sp s = (r, s') \<Longrightarrow>
     xonar_udev s' = xonar_udev s \<and> current_output s' = current_output s \<and> klog s' = klog s"
  by (auto simp: xonar_switch_def Let_def split: prod.splits option.splits
           dest!: kmalloc_frame usb_control_msg_frame)

lemma xonar_get_status_frame:
  "xonar_get_status k d s = (r, s') \<Longrightarrow>
     xonar_udev s' = xonar_udev s \<and> current_output s' = current_output s \<and> klog s' = klog s"
  by (auto simp: xonar_get_status_def split: prod.splits option.splits if_splits
           dest!: kmalloc_frame usb_control_msg_frame)

lemma xonar_get_status_range:
  "xonar_get_status k d s = (r, s') \<Longrightarrow> r < 0 \<or> r = 0 \<or> r = 1"
  by (auto simp: xonar_get_status_def ENOMEM_def split: prod.splits option.splits if_splits)

subsection \<open>The test doubles at work\<close>

lemma stub_timeout_status:
  "xonar_get_status stub_timeout xonar_dev (attached xonar_dev out) =
     (- 110, (attached xonar_dev out)\<lparr>issued :=
        [\<lparr>msg_dev = xonar_dev, msg_pipe = RcvCtrlPipe 0, msg_request = 0x01,
          msg_requesttype = 0xA1, msg_value = 0x0200, msg_index = 0x0700,
          msg_data = [0, 0, 0, 0, 0, 0], msg_size = 6, msg_timeout = 1000\<rparr>]\<rparr>)"
  by (simp add: xonar_get_status_def kmalloc_def usb_control_msg_def stub_timeout_def
      attached_def usb_consts upt_rec)

lemma stub_timeout_switch:
  "xonar_switch stub_timeout xonar_dev 1 (attached xonar_dev out) =
     (- 110, (attached xonar_dev out)\<lparr>issued :=
        [\<lparr>msg_dev = xonar_dev, msg_pipe = SndCtrlPipe 0, msg_request = 0x01,
          msg_requesttype = 0x21, msg_value = 0x0800, msg_index = 0x0700,
          msg_data = [0x01, 0x03], msg_size = 2, msg_timeout = 1000\<rparr>]\<rparr>)"
  by (simp add: xonar_switch_def kmalloc_def usb_control_msg_def stub_timeout_def
      attached_def usb_consts upt_rec)

lemma stub_echo_switch:
  "xonar_switch stub_echo xonar_dev sp (attached xonar_dev out) =
     (2, (attached xonar_dev out)\<lparr>world := (if sp \<noteq> 0 then 1 else 2), issued :=
        [\<lparr>msg_dev = xonar_dev, msg_pipe = SndCtrlPipe 0, msg_request = 0x01,
          msg_requesttype = 0x21, msg_value = 0x0800, msg_index = 0x0700,
          msg_data = [if sp \<noteq> 0 then 0x01 else 0x02, 0x03], msg_size = 2,
          msg_timeout = 1000\<rparr>]\<rparr>)"
  by (simp add: xonar_switch_def kmalloc_def usb_control_msg_def stub_echo_def
      attached_def usb_consts upt_rec)

lemma find_xonar_stub_absent: "find_xonar stub_absent s = None"
  by (simp add: find_xonar_def stub_absent_def match_xonar_def hub_dev_def
      XONAR_VENDOR_ID_def XONAR_PRODUCT_ID_def)

lemma find_xonar_stub_timeout: "find_xonar stub_timeout s = Some xonar_dev"
  by (simp add: find_xonar_def stub_timeout_def match_xonar_def hub_dev_def xonar_dev_def
      XONAR_VENDOR_ID_def XONAR_PRODUCT_ID_def)

subsection \<open>The values the cache can take\<close>

lemma output_set_cache_range:
  "current_output (snd (output_set k val s)) \<in> {current_output s, 0, 1}"
proof (cases "xonar_udev s")
  case None
  then show ?thesis by (simp add: output_set_def)
next
  case (Some d)
  have "current_output (snd (xonar_switch k d sp s)) = current_output s" for sp
    using xonar_switch_frame [of k d sp s] by (cases "xonar_switch k d sp s") simp
  from this [of 0] this [of 1] show ?thesis
    using Some by (auto simp: output_set_def printk_def split: prod.splits)
qed

lemma output_get_cache_range:
  "current_output (snd (output_get k s)) \<in> {current_output s, 0, 1}"
proof (cases "xonar_udev s")
  case None
  then show ?thesis by (simp add: output_get_def)
next
  case (Some d)
  obtain r s1 where st: "xonar_get_status k d s = (r, s1)"
    by (cases "xonar_get_status k d s")
  from st have "current_output s1 = current_output s"
    by (simp add: xonar_get_status_frame)
  moreover from st have "r < 0 \<or> r = 0 \<or> r = 1"
    by (rule xonar_get_status_range)
  ultimately show ?thesis
    using Some st by (auto simp: output_get_def)
qed

lemma xonar_ae_init_cache_range:
  "current_output (snd (xonar_ae_init k s)) \<in> {current_output s, 0, 1, - 1}"
proof (cases "find_xonar k s")
  case None
  then show ?thesis by (simp add: xonar_ae_init_def printk_def)
next
  case (Some d)
  obtain r s1 where st: "xonar_get_status k d (s\<lparr>xonar_udev := Some d\<rparr>) = (r, s1)"
    by (cases "xonar_get_status k d (s\<lparr>xonar_udev := Some d\<rparr>)")
  from st have "r < 0 \<or> r = 0 \<or> r = 1"
    by (rule xonar_get_status_range)
  then show ?thesis
    using Some st by (auto simp: xonar_ae_init_def printk_def)
qed

lemma step_cache_range:
  assumes "current_output s \<in> {1, 0, - 1}"
  shows "current_output (step k c s) \<in> {1, 0, - 1}"
proof (cases c)
  case Call_init
  then show ?thesis using assms xonar_ae_init_cache_range [of k s] by auto
next
  case Call_exit
  then show ?thesis using assms by (simp add: xonar_ae_exit_def printk_def)
next
  case (Call_set val)
  then show ?thesis using assms output_set_cache_range [of k val s] by auto
next
  case Call_get
  then show ?thesis using assms output_get_cache_range [of k s] by auto
qed

lemma run_cache_range:
  "current_output s \<in> {1, 0, - 1} \<Longrightarrow> current_output (run k cs s) \<in> {1, 0, - 1}"
proof (induction cs arbitrary: s)
  case Nil
  then show ?case by simp
next
  case (Cons c cs)
  from Cons.prems have "current_output (step k c s) \<in> {1, 0, - 1}"
    by (rule step_cache_range)
  then have "current_output (run k cs (step k c s)) \<in> {1, 0, - 1}"
    by (rule Cons.IH)
  then show ?case by simp
qed

lemma output_get_text:
  "snd (fst (output_get k s)) \<in>
     {''speakers\<newline>'', ''headphones\<newline>'', ''unknown\<newline>'', ''disconnected\<newline>''}"
  by (simp add: output_get_def sprintf_def Let_def split: option.splits prod.splits)

section \<open>The claims\<close>


subsection \<open>C1: the tokens \<^verbatim>\<open>output_set\<close> accepts\<close>

text \<open>
  C1, as stated, fails: the comparison is \<^verbatim>\<open>sysfs_streq\<close>, which tells upper from
  lower case. With a device handle held, the input \<^verbatim>\<open>SPEAKERS\<close>, equal to
  \<^verbatim>\<open>speakers\<close> up to case, is refused with \<^verbatim>\<open>-EINVAL\<close> and the state is
  left as it was.
\<close>

theorem output_set_caseless_counterexample:
  "caseless_eq ''SPEAKERS'' ''speakers'' \<and>
   output_set stub_echo ''SPEAKERS'' (attached xonar_dev (- 1)) =
     (- EINVAL, attached xonar_dev (- 1))"
  by (simp add: caseless_SPEAKERS output_set_def not_streq_SPEAKERS) (simp add: attached_def)

text \<open>
  C1, amended. With a device handle held, an input whose C string is one of
  \<^verbatim>\<open>speakers\<close>, \<^verbatim>\<open>1\<close> (exactly, in lower case, with or without one trailing
  newline) is accepted as the speakers selection: \<^verbatim>\<open>xonar_switch\<close> runs with
  \<open>speakers = 1\<close>, its error is returned or else 0, and the cache becomes 1 when it did
  not fail. The same holds for \<^verbatim>\<open>headphones\<close>, \<^verbatim>\<open>0\<close> and the selection 0.
  Every other input returns \<^verbatim>\<open>-EINVAL\<close> and leaves the whole state, the cache and
  the list of issued transfers included, as it was.
\<close>

theorem output_set_tokens:
  assumes "xonar_udev s = Some d"
  shows "(c_str val \<in> speakers_tokens \<longrightarrow>
            fst (output_set k val s) =
              (if fst (xonar_switch k d 1 s) < 0 then fst (xonar_switch k d 1 s) else 0) \<and>
            current_output (snd (output_set k val s)) =
              (if 0 \<le> fst (xonar_switch k d 1 s) then 1 else current_output s) \<and>
            issued (snd (output_set k val s)) = issued (snd (xonar_switch k d 1 s))) \<and>
         (c_str val \<in> headphones_tokens \<longrightarrow>
            fst (output_set k val s) =
              (if fst (xonar_switch k d 0 s) < 0 then fst (xonar_switch k d 0 s) else 0) \<and>
            current_output (snd (output_set k val s)) =
              (if 0 \<le> fst (xonar_switch k d 0 s) then 0 else current_output s) \<and>
            issued (snd (output_set k val s)) = issued (snd (xonar_switch k d 0 s))) \<and>
         (c_str val \<notin> speakers_tokens \<union> headphones_tokens \<longrightarrow>
            output_set k val s = (- EINVAL, s))"
proof -
  have keep: "current_output (snd (xonar_switch k d sp s)) = current_output s" for sp
    using xonar_switch_frame [of k d sp s] by (cases "xonar_switch k d sp s") simp
  have A: "output_set k val s =
      (case xonar_switch k d 1 s of
         (ret, s1) \<Rightarrow>
           ((if ret < 0 then ret else 0),
            (if 0 \<le> ret
             then printk (''xonar-ae: switched to speakers\<newline>'') (s1\<lparr>current_output := 1\<rparr>)
             else s1)))" if "c_str val \<in> speakers_tokens"
    using assms that by (simp add: output_set_def speakers_token_iff split: prod.splits)
  have B: "output_set k val s =
      (case xonar_switch k d 0 s of
         (ret, s1) \<Rightarrow>
           ((if ret < 0 then ret else 0),
            (if 0 \<le> ret
             then printk (''xonar-ae: switched to headphones\<newline>'') (s1\<lparr>current_output := 0\<rparr>)
             else s1)))" if "c_str val \<in> headphones_tokens"
    using assms that tokens_disjoint [of "c_str val"]
    by (auto simp: output_set_def speakers_token_iff headphones_token_iff split: prod.splits)
  have C: "output_set k val s = (- EINVAL, s)"
    if "c_str val \<notin> speakers_tokens \<union> headphones_tokens"
    using assms that
    by (simp add: output_set_def speakers_token_iff headphones_token_iff)
  show ?thesis
    using keep [of 1] keep [of 0]
    by (auto simp: A B C printk_def split: prod.splits)
qed

theorem output_set_tokens_witness:
  "xonar_udev (attached xonar_dev (- 1)) = Some xonar_dev \<and>
   c_str ''1\<newline>'' \<in> speakers_tokens \<and>
   fst (output_set stub_echo ''1\<newline>'' (attached xonar_dev (- 1))) = 0 \<and>
   current_output (snd (output_set stub_echo ''1\<newline>'' (attached xonar_dev (- 1)))) = 1 \<and>
   c_str ''headphones'' \<in> headphones_tokens \<and>
   fst (output_set stub_echo ''headphones'' (attached xonar_dev (- 1))) = 0 \<and>
   current_output (snd (output_set stub_echo ''headphones'' (attached xonar_dev (- 1)))) = 0 \<and>
   c_str ''stereo'' \<notin> speakers_tokens \<union> headphones_tokens \<and>
   output_set stub_echo ''stereo'' (attached xonar_dev (- 1)) =
     (- EINVAL, attached xonar_dev (- 1))"
proof -
  have a: "xonar_udev (attached xonar_dev (- 1)) = Some xonar_dev"
    by (simp add: attached_def)
  have b: "c_str ''1\<newline>'' \<in> speakers_tokens" "c_str ''headphones'' \<in> headphones_tokens"
    "c_str ''stereo'' \<notin> speakers_tokens \<union> headphones_tokens"
    by (simp_all add: speakers_tokens_def headphones_tokens_def)
  show ?thesis
    using output_set_tokens [OF a, of "''1\<newline>''" stub_echo]
      output_set_tokens [OF a, of "''headphones''" stub_echo]
      output_set_tokens [OF a, of "''stereo''" stub_echo] a b
    by (simp add: stub_echo_switch)
qed


subsection \<open>C2: startup without the device\<close>

text \<open>
  C2, as stated, fails: when the enumeration finds no matching device,
  \<^verbatim>\<open>xonar_ae_init\<close> returns \<^verbatim>\<open>-ENODEV\<close> (-19), not 0, so the startup routine
  does fail. Here only a root hub is attached.
\<close>

theorem xonar_ae_init_absent_counterexample:
  "find_xonar stub_absent (initial_state 0) = None \<and>
   fst (xonar_ae_init stub_absent (initial_state 0)) = - 19 \<and>
   fst (xonar_ae_init stub_absent (initial_state 0)) \<noteq> 0"
  by (simp add: find_xonar_stub_absent xonar_ae_init_def ENODEV_def)

text \<open>
  C2, amended. When discovery finds no matching device, the startup routine fails with
  \<^verbatim>\<open>-ENODEV\<close>, having written the one error line
  \<^verbatim>\<open>xonar-ae: ASUS XONAR AE (0B05:180F) not found\<close> to the kernel log, issued no
  transfer, taken no device handle and left the cache as it was; in the state it leaves,
  every \<^verbatim>\<open>output_set\<close> returns \<^verbatim>\<open>-ENODEV\<close> and every
  \<^verbatim>\<open>output_get\<close> writes \<^verbatim>\<open>disconnected\<close>, again without a transfer.
\<close>

theorem xonar_ae_init_no_device:
  assumes "find_xonar k s = None"
  shows "fst (xonar_ae_init k s) = - ENODEV \<and>
         xonar_udev (snd (xonar_ae_init k s)) = None \<and>
         current_output (snd (xonar_ae_init k s)) = current_output s \<and>
         issued (snd (xonar_ae_init k s)) = issued s \<and>
         klog (snd (xonar_ae_init k s)) =
           klog s @ [''xonar-ae: ASUS XONAR AE (0B05:180F) not found\<newline>''] \<and>
         fst (output_set k val (snd (xonar_ae_init k s))) = - ENODEV \<and>
         issued (snd (output_set k val (snd (xonar_ae_init k s)))) = issued s \<and>
         snd (fst (output_get k (snd (xonar_ae_init k s)))) = ''disconnected\<newline>'' \<and>
         issued (snd (output_get k (snd (xonar_ae_init k s)))) = issued s"
  using assms
  by (simp add: xonar_ae_init_def output_set_def output_get_def printk_def sprintf_def)

theorem xonar_ae_init_no_device_witness:
  "find_xonar stub_absent (initial_state 0) = None \<and>
   fst (xonar_ae_init stub_absent (initial_state 0)) = - 19 \<and>
   xonar_udev (snd (xonar_ae_init stub_absent (initial_state 0))) = None \<and>
   current_output (snd (xonar_ae_init stub_absent (initial_state 0))) = - 1 \<and>
   klog (snd (xonar_ae_init stub_absent (initial_state 0))) =
     [''xonar-ae: ASUS XONAR AE (0B05:180F) not found\<newline>''] \<and>
   fst (output_set stub_absent ''speakers'' (snd (xonar_ae_init stub_absent (initial_state 0))))
     = - 19 \<and>
   snd (fst (output_get stub_absent (snd (xonar_ae_init stub_absent (initial_state 0)))))
     = ''disconnected\<newline>''"
  using xonar_ae_init_no_device [OF find_xonar_stub_absent, of "initial_state 0" "''speakers''"]
    find_xonar_stub_absent [of "initial_state 0"]
  by (simp add: ENODEV_def initial_state_def)


subsection \<open>C3: when the cache is Unknown\<close>

text \<open>
  C3, as stated, fails: a failed transfer in the get path does not reset the cache to
  Unknown (-1). With the cache at 1 (speakers) and a transport that times out,
  \<^verbatim>\<open>output_get\<close> leaves the cache at 1.
\<close>

theorem failed_transfer_counterexample:
  "fst (xonar_get_status stub_timeout xonar_dev (attached xonar_dev 1)) < 0 \<and>
   current_output (snd (output_get stub_timeout (attached xonar_dev 1))) = 1 \<and>
   current_output (snd (output_get stub_timeout (attached xonar_dev 1))) \<noteq> - 1"
proof -
  have "xonar_udev (attached xonar_dev 1) = Some xonar_dev"
    by (simp add: attached_def)
  then have "current_output (snd (output_get stub_timeout (attached xonar_dev 1))) = 1"
    by (simp add: output_get_def stub_timeout_status) (simp add: attached_def)
  then show ?thesis by (simp add: stub_timeout_status)
qed

text \<open>
  C3, amended. The cache is Unknown (-1) initially, and Unknown is the fallback when the
  status query of the startup routine fails. A failed query in \<^verbatim>\<open>output_get\<close> and
  a failing \<^verbatim>\<open>output_set\<close> leave the cache at the value it had before the call.
\<close>

theorem unknown_fallback:
  "current_output (initial_state w) = - 1 \<and>
   (find_xonar k s = Some d \<and> fst (xonar_get_status k d (s\<lparr>xonar_udev := Some d\<rparr>)) < 0 \<longrightarrow>
      current_output (snd (xonar_ae_init k s)) = - 1) \<and>
   (xonar_udev s = Some d \<and> fst (xonar_get_status k d s) < 0 \<longrightarrow>
      current_output (snd (output_get k s)) = current_output s) \<and>
   (fst (output_set k val s) < 0 \<longrightarrow>
      current_output (snd (output_set k val s)) = current_output s)"
proof -
  have init: "current_output (initial_state w) = - 1"
    by (simp add: initial_state_def)
  have start: "current_output (snd (xonar_ae_init k s)) = - 1"
    if "find_xonar k s = Some d" "fst (xonar_get_status k d (s\<lparr>xonar_udev := Some d\<rparr>)) < 0"
    using that
    by (cases "xonar_get_status k d (s\<lparr>xonar_udev := Some d\<rparr>)")
      (simp add: xonar_ae_init_def printk_def)
  have get: "current_output (snd (output_get k s)) = current_output s"
    if "xonar_udev s = Some d" "fst (xonar_get_status k d s) < 0"
  proof -
    obtain r s1 where st: "xonar_get_status k d s = (r, s1)"
      by (cases "xonar_get_status k d s")
    from st have "current_output s1 = current_output s"
      by (simp add: xonar_get_status_frame)
    with that st show ?thesis by (simp add: output_get_def)
  qed
  have set: "current_output (snd (output_set k val s)) = current_output s"
    if "fst (output_set k val s) < 0"
  proof (cases "xonar_udev s")
    case None
    then show ?thesis by (simp add: output_set_def)
  next
    case (Some u)
    have "current_output (snd (xonar_switch k u sp s)) = current_output s" for sp
      using xonar_switch_frame [of k u sp s] by (cases "xonar_switch k u sp s") simp
    from this [of 0] this [of 1] show ?thesis
      using Some that by (auto simp: output_set_def split: prod.splits if_splits)
  qed
  from init start get set show ?thesis by blast
qed

theorem unknown_fallback_witness:
  "current_output (initial_state (0::u8)) = - 1 \<and>
   find_xonar stub_timeout (attached hub_dev 1) = Some xonar_dev \<and>
   fst (xonar_get_status stub_timeout xonar_dev (attached xonar_dev 1)) < 0 \<and>
   current_output (snd (xonar_ae_init stub_timeout (attached hub_dev 1))) = - 1 \<and>
   xonar_udev (attached xonar_dev 1) = Some xonar_dev \<and>
   current_output (snd (output_get stub_timeout (attached xonar_dev 1))) = 1 \<and>
   fst (output_set stub_timeout ''speakers'' (attached xonar_dev 0)) < 0 \<and>
   current_output (snd (output_set stub_timeout ''speakers'' (attached xonar_dev 0))) = 0"
proof -
  have a: "(attached hub_dev 1)\<lparr>xonar_udev := Some xonar_dev\<rparr> = attached xonar_dev 1"
    by (simp add: attached_def)
  have b: "xonar_udev (attached xonar_dev out) = Some xonar_dev" for out
    by (simp add: attached_def)
  have c: "fst (output_set stub_timeout ''speakers'' (attached xonar_dev 0)) = - 110"
    using b [of 0] by (simp add: output_set_def speakers_token_iff speakers_tokens_def
        stub_timeout_switch)
  show ?thesis
    using unknown_fallback [of "0::u8" stub_timeout "attached hub_dev 1" xonar_dev
        "''speakers''"]
      unknown_fallback [of "0::u8" stub_timeout "attached xonar_dev 1" xonar_dev
        "''speakers''"]
      unknown_fallback [of "0::u8" stub_timeout "attached xonar_dev 0" xonar_dev
        "''speakers''"]
      a b c
    by (simp add: find_xonar_stub_timeout stub_timeout_status)
      (simp add: attached_def)
qed


subsection \<open>C4: a failed transfer in \<^verbatim>\<open>output_set\<close>\<close>

text \<open>
  C4. With a device handle held and a valid token (\<open>sp\<close> is the selection it stands
  for), if \<^verbatim>\<open>xonar_switch\<close> fails (a negative return value, from the transfer or from
  the allocation of its buffer), the cache after \<^verbatim>\<open>output_set\<close> is the cache before
  it, and \<^verbatim>\<open>output_set\<close> returns that same error code.
\<close>

theorem output_set_failure:
  assumes "xonar_udev s = Some d"
    and "c_str val \<in> speakers_tokens \<and> sp = 1 \<or> c_str val \<in> headphones_tokens \<and> sp = 0"
    and "fst (xonar_switch k d sp s) < 0"
  shows "current_output (snd (output_set k val s)) = current_output s \<and>
         fst (output_set k val s) = fst (xonar_switch k d sp s)"
proof -
  obtain r s1 where sw: "xonar_switch k d sp s = (r, s1)"
    by (cases "xonar_switch k d sp s")
  with assms(3) have neg: "r < 0" by simp
  from sw have keep: "current_output s1 = current_output s"
    by (simp add: xonar_switch_frame)
  from assms(2) show ?thesis
  proof
    assume "c_str val \<in> speakers_tokens \<and> sp = 1"
    then show ?thesis
      using assms(1) sw neg keep
      by (simp add: output_set_def speakers_token_iff)
  next
    assume h: "c_str val \<in> headphones_tokens \<and> sp = 0"
    then have "c_str val \<notin> speakers_tokens"
      using tokens_disjoint by blast
    with h show ?thesis
      using assms(1) sw neg keep
      by (simp add: output_set_def speakers_token_iff headphones_token_iff)
  qed
qed

theorem output_set_failure_witness:
  "xonar_udev (attached xonar_dev 0) = Some xonar_dev \<and>
   c_str ''speakers'' \<in> speakers_tokens \<and>
   fst (xonar_switch stub_timeout xonar_dev 1 (attached xonar_dev 0)) < 0 \<and>
   current_output (snd (output_set stub_timeout ''speakers'' (attached xonar_dev 0))) = 0 \<and>
   fst (output_set stub_timeout ''speakers'' (attached xonar_dev 0)) = - 110"
proof -
  have a: "xonar_udev (attached xonar_dev 0) = Some xonar_dev"
    by (simp add: attached_def)
  have b: "c_str ''speakers'' \<in> speakers_tokens"
    by (simp add: speakers_tokens_def)
  show ?thesis
    using output_set_failure [of "attached xonar_dev 0" xonar_dev "''speakers''" 1 stub_timeout]
      a b
    by (simp add: stub_timeout_switch) (simp add: attached_def)
qed


subsection \<open>C5: a failed transfer in \<^verbatim>\<open>output_get\<close>\<close>

text \<open>
  C5. With a device handle held, if \<^verbatim>\<open>xonar_get_status\<close> fails,
  \<^verbatim>\<open>output_get\<close> still succeeds (a positive character count): it leaves the cache
  as it was and writes the name of the cached value, which is \<^verbatim>\<open>unknown\<close> only when
  the cache was neither 1 nor 0 before the call.
\<close>

theorem output_get_failure:
  assumes "xonar_udev s = Some d"
    and "fst (xonar_get_status k d s) < 0"
  shows "current_output (snd (output_get k s)) = current_output s \<and>
         snd (fst (output_get k s)) =
           (if current_output s = 1 then ''speakers\<newline>''
            else if current_output s = 0 then ''headphones\<newline>''
            else ''unknown\<newline>'') \<and>
         0 < fst (fst (output_get k s))"
proof -
  obtain r s1 where st: "xonar_get_status k d s = (r, s1)"
    by (cases "xonar_get_status k d s")
  with assms(2) have neg: "r < 0" by simp
  from st have keep: "current_output s1 = current_output s"
    by (simp add: xonar_get_status_frame)
  show ?thesis
    using assms(1) st neg keep by (simp add: output_get_def sprintf_def)
qed

theorem output_get_failure_witness:
  "xonar_udev (attached xonar_dev 1) = Some xonar_dev \<and>
   fst (xonar_get_status stub_timeout xonar_dev (attached xonar_dev 1)) < 0 \<and>
   current_output (snd (output_get stub_timeout (attached xonar_dev 1))) = 1 \<and>
   fst (output_get stub_timeout (attached xonar_dev 1)) = (9, ''speakers\<newline>'')"
proof -
  have a: "xonar_udev (attached xonar_dev 1) = Some xonar_dev"
    by (simp add: attached_def)
  have b: "fst (xonar_get_status stub_timeout xonar_dev (attached xonar_dev 1)) < 0"
    by (simp add: stub_timeout_status)
  have c: "fst (fst (output_get stub_timeout (attached xonar_dev 1))) = 9"
    using a by (simp add: output_get_def stub_timeout_status sprintf_def) (simp add: attached_def)
  show ?thesis
    using output_get_failure [OF a b] a b c
    by (simp add: attached_def prod_eq_iff)
qed


subsection \<open>C6: decoding the connector status\<close>

text \<open>
  C6. When the 6-byte buffer is allocated and the device-to-host transfer (request 0x01,
  selector 0x02, entity 7) returns \<open>ret\<close> and delivers the bytes \<open>rx\<close>:
  for a successful 6-byte reply \<^verbatim>\<open>xonar_get_status\<close> returns 1 (speakers) exactly when
  byte 0 is 8 and 0 (headphones) for every other value; a negative \<open>ret\<close> is returned
  as it is. The function never writes the cache, so it maps nothing to Unknown.
\<close>

theorem xonar_get_status_decodes:
  assumes "env_kmalloc k 6 (world s) = (Some g, w1)"
    and "env_control_msg k
           \<lparr>msg_dev = d, msg_pipe = RcvCtrlPipe 0, msg_request = 0x01,
            msg_requesttype = 0xA1, msg_value = 0x0200, msg_index = 0x0700,
            msg_data = map g [0..<6], msg_size = 6, msg_timeout = 1000\<rparr> w1 = ((ret, rx), w2)"
  shows "(0 \<le> ret \<and> length rx = 6 \<longrightarrow>
            fst (xonar_get_status k d s) = (if rx ! 0 = 8 then 1 else 0)) \<and>
         (ret < 0 \<longrightarrow> fst (xonar_get_status k d s) = ret) \<and>
         current_output (snd (xonar_get_status k d s)) = current_output s"
  using assms
  by (auto simp: xonar_get_status_def kmalloc_def usb_control_msg_def usb_consts nth_append)

theorem xonar_get_status_decodes_witness:
  "fst (xonar_get_status stub_echo xonar_dev (attached xonar_dev 0\<lparr>world := 1\<rparr>)) = 1 \<and>
   fst (xonar_get_status stub_echo xonar_dev (attached xonar_dev 1\<lparr>world := 2\<rparr>)) = 0 \<and>
   fst (xonar_get_status stub_timeout xonar_dev (attached xonar_dev 1)) = - 110"
proof -
  have a1: "env_kmalloc stub_echo 6 (world (attached xonar_dev 0\<lparr>world := 1\<rparr>)) =
              (Some (\<lambda>i. 0), 1)"
    by (simp add: stub_echo_def attached_def)
  have a2: "env_kmalloc stub_echo 6 (world (attached xonar_dev 1\<lparr>world := 2\<rparr>)) =
              (Some (\<lambda>i. 0), 2)"
    by (simp add: stub_echo_def attached_def)
  have b: "env_control_msg stub_echo
           \<lparr>msg_dev = xonar_dev, msg_pipe = RcvCtrlPipe 0, msg_request = 0x01,
            msg_requesttype = 0xA1, msg_value = 0x0200, msg_index = 0x0700,
            msg_data = map (\<lambda>i. 0) [0..<6], msg_size = 6, msg_timeout = 1000\<rparr> w
          = ((6, [if w = 1 then 8 else 2, 0, 0, 0, 0, 0]), w)" for w
    by (simp add: stub_echo_def)
  have c: "env_kmalloc stub_timeout 6 (world (attached xonar_dev 1)) = (Some (\<lambda>i. 0), 0)"
    by (simp add: stub_timeout_def attached_def)
  have d: "env_control_msg stub_timeout
           \<lparr>msg_dev = xonar_dev, msg_pipe = RcvCtrlPipe 0, msg_request = 0x01,
            msg_requesttype = 0xA1, msg_value = 0x0200, msg_index = 0x0700,
            msg_data = map (\<lambda>i. 0) [0..<6], msg_size = 6, msg_timeout = 1000\<rparr> 0
          = ((- 110, []), 0)"
    by (simp add: stub_timeout_def)
  show ?thesis
    using xonar_get_status_decodes [OF a1 b]
      xonar_get_status_decodes [OF a2 b]
      xonar_get_status_decodes [OF c d]
    by simp
qed


subsection \<open>C7: the output-select request\<close>

text \<open>
  C7. \<^verbatim>\<open>xonar_switch\<close> issues exactly one transfer whenever its 2-byte buffer is
  allocated (and none when the allocation fails): on the send pipe of endpoint 0, with request
  code 0x01, request type 0x21 (class, interface, host to device), \<^verbatim>\<open>wValue\<close> 0x0800
  (control selector 0x08 in the high byte), \<^verbatim>\<open>wIndex\<close> 0x0700 (entity 7 in the high
  byte), the payload [0x01, 0x03] for speakers and [0x02, 0x03] for headphones, length 2 and
  a timeout of 1000 ms.
\<close>

theorem xonar_switch_request:
  "issued (snd (xonar_switch k d speakers s)) =
     issued s @
     (case fst (env_kmalloc k 2 (world s)) of
        None \<Rightarrow> []
      | Some g \<Rightarrow>
          [\<lparr>msg_dev = d, msg_pipe = SndCtrlPipe 0, msg_request = 0x01,
            msg_requesttype = 0x21, msg_value = 0x0800, msg_index = 0x0700,
            msg_data = [if speakers \<noteq> 0 then 0x01 else 0x02, 0x03],
            msg_size = 2, msg_timeout = 1000\<rparr>])"
  by (auto simp: xonar_switch_def kmalloc_def usb_control_msg_def usb_consts upt_rec Let_def
      split: prod.splits option.splits)


subsection \<open>C8: no device handle\<close>

text \<open>
  C8. When no device handle is held, \<^verbatim>\<open>output_get\<close> writes
  \<^verbatim>\<open>disconnected\<close> (13 characters with the newline) and \<^verbatim>\<open>output_set\<close> returns
  \<^verbatim>\<open>-ENODEV\<close> for every input; both leave the whole state as it was, so neither
  issues a transfer.
\<close>

theorem no_device_guards:
  assumes "xonar_udev s = None"
  shows "output_get k s = ((13, ''disconnected\<newline>''), s) \<and>
         output_set k val s = (- ENODEV, s)"
  using assms by (simp add: output_get_def output_set_def sprintf_def)

theorem no_device_guards_witness:
  "xonar_udev (initial_state (0::u8)) = None \<and>
   output_get stub_echo (initial_state 0) = ((13, ''disconnected\<newline>''), initial_state 0) \<and>
   output_set stub_echo ''speakers'' (initial_state 0) = (- ENODEV, initial_state 0)"
  using no_device_guards [of "initial_state (0::u8)" stub_echo "''speakers''"]
  by (simp add: initial_state_def)


subsection \<open>C9: write, then read\<close>

text \<open>
  C9. With a device handle held, let \<open>val\<close> be one of the four tokens and \<open>sp\<close> the
  selection it stands for. If both buffers are allocated, the write transfer succeeds, and the
  status transfer that follows succeeds with a 6-byte reply whose byte 0 is 8 exactly when
  the write selected speakers, then \<^verbatim>\<open>output_set\<close> returns 0 and the
  \<^verbatim>\<open>output_get\<close> that follows writes \<^verbatim>\<open>speakers\<close> for the tokens
  \<^verbatim>\<open>speakers\<close> and \<^verbatim>\<open>1\<close>, and \<^verbatim>\<open>headphones\<close> for
  \<^verbatim>\<open>headphones\<close> and \<^verbatim>\<open>0\<close>.
\<close>

theorem output_set_get_roundtrip:
  assumes "xonar_udev s = Some d"
    and "val \<in> {''speakers'', ''1''} \<and> sp = (1::int) \<or> val \<in> {''headphones'', ''0''} \<and> sp = 0"
    and "env_kmalloc k 2 (world s) = (Some g1, w1)"
    and "env_control_msg k
           \<lparr>msg_dev = d, msg_pipe = SndCtrlPipe 0, msg_request = 0x01,
            msg_requesttype = 0x21, msg_value = 0x0800, msg_index = 0x0700,
            msg_data = [if sp = 1 then 0x01 else 0x02, 0x03],
            msg_size = 2, msg_timeout = 1000\<rparr> w1 = ((ret1, rx1), w2)"
    and "0 \<le> ret1"
    and "env_kmalloc k 6 w2 = (Some g2, w3)"
    and "env_control_msg k
           \<lparr>msg_dev = d, msg_pipe = RcvCtrlPipe 0, msg_request = 0x01,
            msg_requesttype = 0xA1, msg_value = 0x0200, msg_index = 0x0700,
            msg_data = map g2 [0..<6], msg_size = 6, msg_timeout = 1000\<rparr> w3 = ((ret2, rx2), w4)"
    and "0 \<le> ret2"
    and "length rx2 = 6"
    and "(rx2 ! 0 = 8) = (sp = 1)"
  shows "fst (output_set k val s) = 0 \<and>
         snd (fst (output_get k (snd (output_set k val s)))) =
           (if sp = 1 then ''speakers\<newline>'' else ''headphones\<newline>'')"
proof -
  let ?m = "\<lparr>msg_dev = d, msg_pipe = SndCtrlPipe 0, msg_request = 0x01,
            msg_requesttype = 0x21, msg_value = 0x0800, msg_index = 0x0700,
            msg_data = [if sp = 1 then 0x01 else 0x02, 0x03],
            msg_size = 2, msg_timeout = 1000\<rparr>"
  from assms(2) have sp: "sp = 1 \<or> sp = 0" by blast
  have tok: "(sysfs_streq val ''speakers'' \<or> sysfs_streq val ''1'') = (sp = 1)"
    "sp = 0 \<Longrightarrow> sysfs_streq val ''headphones'' \<or> sysfs_streq val ''0''"
    using assms(2) by (auto simp: speakers_token_iff headphones_token_iff
        speakers_tokens_def headphones_tokens_def)
  have sw: "xonar_switch k d sp s = (ret1, s\<lparr>world := w2, issued := issued s @ [?m]\<rparr>)"
    using assms(3,4) sp
    by (auto simp: xonar_switch_def kmalloc_def usb_control_msg_def usb_consts upt_rec Let_def)
  define s2 where "s2 = printk (''xonar-ae: switched to '' @
      (if sp \<noteq> 0 then ''speakers'' else ''headphones'') @ ''\<newline>'')
      (s\<lparr>world := w2, issued := issued s @ [?m], current_output := sp\<rparr>)"
  have set: "output_set k val s = (0, s2)"
    using assms(1,5) sp tok sw by (auto simp: output_set_def s2_def)
  have dev: "xonar_udev s2 = Some d"
    using assms(1) by (simp add: printk_def s2_def)
  have w: "world s2 = w2"
    by (simp add: printk_def s2_def)
  have st: "fst (xonar_get_status k d s2) = (if sp = 1 then 1 else 0)"
    using assms(6-10) w
    by (auto simp: xonar_get_status_def kmalloc_def usb_control_msg_def usb_consts nth_append)
  obtain r s3 where gs: "xonar_get_status k d s2 = (r, s3)"
    by (cases "xonar_get_status k d s2")
  with st have r: "r = (if sp = 1 then 1 else 0)" by simp
  show ?thesis
    using sp by (auto simp: set output_get_def dev gs r sprintf_def)
qed

theorem output_set_get_roundtrip_witness:
  "snd (fst (output_get stub_echo (snd (output_set stub_echo ''speakers'' (attached xonar_dev 0)))))
     = ''speakers\<newline>'' \<and>
   snd (fst (output_get stub_echo (snd (output_set stub_echo ''0'' (attached xonar_dev 1)))))
     = ''headphones\<newline>''"
proof -
  have dev: "xonar_udev (attached xonar_dev out) = Some xonar_dev" for out
    by (simp add: attached_def)
  have tok1: "''speakers'' \<in> {''speakers'', ''1''} \<and> (1::int) = 1 \<or>
              ''speakers'' \<in> {''headphones'', ''0''} \<and> (1::int) = 0"
    by simp
  have tok0: "''0'' \<in> {''speakers'', ''1''} \<and> (0::int) = 1 \<or>
              ''0'' \<in> {''headphones'', ''0''} \<and> (0::int) = 0"
    by simp
  have al2: "env_kmalloc stub_echo 2 (world (attached xonar_dev out)) = (Some (\<lambda>i. 0), 0)" for out
    by (simp add: stub_echo_def attached_def)
  have wr: "env_control_msg stub_echo
           \<lparr>msg_dev = xonar_dev, msg_pipe = SndCtrlPipe 0, msg_request = 0x01,
            msg_requesttype = 0x21, msg_value = 0x0800, msg_index = 0x0700,
            msg_data = [if sp = 1 then 0x01 else 0x02, 0x03],
            msg_size = 2, msg_timeout = 1000\<rparr> 0
          = ((2, []), (if sp = 1 then 1 else 2))" for sp :: int
    by (simp add: stub_echo_def)
  have al6: "env_kmalloc stub_echo 6 w = (Some (\<lambda>i. 0), w)" for w
    by (simp add: stub_echo_def)
  have rd: "env_control_msg stub_echo
           \<lparr>msg_dev = xonar_dev, msg_pipe = RcvCtrlPipe 0, msg_request = 0x01,
            msg_requesttype = 0xA1, msg_value = 0x0200, msg_index = 0x0700,
            msg_data = map (\<lambda>i. 0) [0..<6], msg_size = 6, msg_timeout = 1000\<rparr> w
          = ((6, [if w = 1 then 8 else 2, 0, 0, 0, 0, 0]), w)" for w
    by (simp add: stub_echo_def)
  have ok: "(0::int) \<le> 2" "(0::int) \<le> 6"
    by simp_all
  have len: "length [if w = 1 then 8 else 2, 0, 0, 0, 0, 0 :: u8] = 6" for w :: u8
    by simp
  have e1: "([if (if (1::int) = 1 then 1 else 2) = (1::u8) then 8 else 2, 0, 0, 0, 0, 0 :: u8] ! 0 = 8)
            = ((1::int) = 1)"
    by simp
  have e0: "([if (if (0::int) = 1 then 1 else 2) = (1::u8) then 8 else 2, 0, 0, 0, 0, 0 :: u8] ! 0 = 8)
            = ((0::int) = 1)"
    by simp
  show ?thesis
    using output_set_get_roundtrip [OF dev tok1 al2 wr ok(1) al6 rd ok(2) len e1, of 0]
      output_set_get_roundtrip [OF dev tok0 al2 wr ok(1) al6 rd ok(2) len e0, of 1]
    by simp
qed


subsection \<open>C10: the values of the cache\<close>

text \<open>
  C10. In the initial state and after every sequence of calls of the startup routine,
  \<^verbatim>\<open>output_set\<close>, \<^verbatim>\<open>output_get\<close> and the exit routine, in any environment,
  \<^verbatim>\<open>current_output\<close> is 1, 0 or -1, and \<^verbatim>\<open>output_get\<close> writes one of the
  four literal strings.
\<close>

theorem current_output_invariant:
  "current_output (run k cs (initial_state w)) \<in> {1, 0, - 1} \<and>
   snd (fst (output_get k (run k cs (initial_state w)))) \<in>
     {''speakers\<newline>'', ''headphones\<newline>'', ''unknown\<newline>'', ''disconnected\<newline>''}"
proof
  have "current_output (initial_state w) \<in> {1, 0, - 1}"
    by (simp add: initial_state_def)
  then show "current_output (run k cs (initial_state w)) \<in> {1, 0, - 1}"
    by (rule run_cache_range)
  show "snd (fst (output_get k (run k cs (initial_state w)))) \<in>
     {''speakers\<newline>'', ''headphones\<newline>'', ''unknown\<newline>'', ''disconnected\<newline>''}"
    by (rule output_get_text)
qed

end
